theory Spec2Isabelle
  imports Complex_Main "HOL-Library.Sublist"
begin

section \<open>Python strings\<close>

text \<open>
  The standardizer (\<^verbatim>\<open>src/data/standardizer.py\<close>) works on Python \<^verbatim>\<open>str\<close> values. They are
  modelled as \<^typ>\<open>string\<close>, one \<^typ>\<open>char\<close> per code point. The character classes and the case
  mappings below are Python's on the code points below 128; the pound sign of the price
  patterns is the code point 163. Every other code point from 128 on is kept as a
  character without case that is neither a digit, nor white space, nor a word character.
\<close>

definition pound :: char where
  "pound = CHR 0xA3"

definition is_upper :: "char \<Rightarrow> bool" where
  "is_upper c \<longleftrightarrow> c \<in> set ''ABCDEFGHIJKLMNOPQRSTUVWXYZ''"

definition is_lower :: "char \<Rightarrow> bool" where
  "is_lower c \<longleftrightarrow> c \<in> set ''abcdefghijklmnopqrstuvwxyz''"

definition is_digit :: "char \<Rightarrow> bool" where
  "is_digit c \<longleftrightarrow> c \<in> set ''0123456789''"

text \<open>\<^verbatim>\<open>str.isspace\<close>, which is also the class \<^verbatim>\<open>\s\<close> of \<^verbatim>\<open>re\<close> on \<^verbatim>\<open>str\<close> patterns:
  tab, line feed, vertical tab, form feed, carriage return, the four separators
  28 to 31, and the space.\<close>

definition is_space :: "char \<Rightarrow> bool" where
  "is_space c \<longleftrightarrow> c \<in> set [CHR 0x09, CHR 0x0A, CHR 0x0B, CHR 0x0C, CHR 0x0D,
                              CHR 0x1C, CHR 0x1D, CHR 0x1E, CHR 0x1F, CHR '' '']"

definition is_cased :: "char \<Rightarrow> bool" where
  "is_cased c \<longleftrightarrow> is_upper c \<or> is_lower c"

text \<open>The class \<^verbatim>\<open>\w\<close>: letters, digits and the underscore.\<close>

definition is_word :: "char \<Rightarrow> bool" where
  "is_word c \<longleftrightarrow> is_upper c \<or> is_lower c \<or> is_digit c \<or> c = CHR ''_''"

definition lower_char :: "char \<Rightarrow> char" where
  "lower_char c = (if is_upper c then char_of (of_char c + (32::nat)) else c)"

definition upper_char :: "char \<Rightarrow> char" where
  "upper_char c = (if is_lower c then char_of (of_char c - (32::nat)) else c)"

text \<open>\<^verbatim>\<open>str.lower\<close> and \<^verbatim>\<open>str.upper\<close>.\<close>

definition py_lower :: "string \<Rightarrow> string" where
  "py_lower s = map lower_char s"

definition py_upper :: "string \<Rightarrow> string" where
  "py_upper s = map upper_char s"

text \<open>\<^verbatim>\<open>str.strip\<close> with no argument: white space is removed at both ends.\<close>

definition py_strip :: "string \<Rightarrow> string" where
  "py_strip s = rev (dropWhile is_space (rev (dropWhile is_space s)))"

text \<open>\<^verbatim>\<open>str.title\<close>: a cased character is put in upper case when the character before it
  is not cased, and in lower case when it is. The flag is "the previous character is cased".\<close>

fun title_from :: "bool \<Rightarrow> string \<Rightarrow> string" where
  "title_from prev [] = []"
| "title_from prev (c # cs) =
     (if prev then lower_char c else upper_char c) # title_from (is_cased c) cs"

definition py_title :: "string \<Rightarrow> string" where
  "py_title s = title_from False s"

text \<open>\<^verbatim>\<open>str.replace(old, '')\<close> for a one-character \<^verbatim>\<open>old\<close>.\<close>

definition remove_char :: "char \<Rightarrow> string \<Rightarrow> string" where
  "remove_char c s = filter (\<lambda>x. x \<noteq> c) s"

text \<open>The value of a string of decimal digits, read from the left.\<close>

definition digit_val :: "char \<Rightarrow> nat" where
  "digit_val c = of_char c - 48"

definition digits_val :: "string \<Rightarrow> nat" where
  "digits_val s = foldl (\<lambda>a c. 10 * a + digit_val c) 0 s"

section \<open>Regular expressions: the part of Python's \<^verbatim>\<open>re\<close> the catalogue uses\<close>

text \<open>
  The patterns of the catalogue are built from literals, the classes \<^verbatim>\<open>\d\<close> and \<^verbatim>\<open>\s\<close>,
  the word boundary \<^verbatim>\<open>\b\<close>, concatenation, alternation, the greedy quantifiers
  \<^verbatim>\<open>*\<close>, \<^verbatim>\<open>+\<close>, \<^verbatim>\<open>?\<close>, \<^verbatim>\<open>{n}\<close>, and numbered capturing groups.
\<close>

datatype re =
    Eps
  | Str string
  | Digit
  | Space
  | WordB
  | Seq re re
  | Alt re re
  | Opt re
  | Star re
  | Group nat re

text \<open>Concatenation of a list of parts, \<^verbatim>\<open>p+\<close> and \<^verbatim>\<open>p{n}\<close>.\<close>

definition seqs :: "re list \<Rightarrow> re" where
  "seqs ps = foldr Seq ps Eps"

definition Plus :: "re \<Rightarrow> re" where
  "Plus p = Seq p (Star p)"

definition Times :: "nat \<Rightarrow> re \<Rightarrow> re" where
  "Times n p = seqs (replicate n p)"

text \<open>
  A matcher state: the text before the cursor (reversed, so that its head is the character
  just before the cursor), the text from the cursor on, the captured groups, and
  \<^verbatim>\<open>lastindex\<close>, the number of the group closed last.
\<close>

type_synonym mstate = "string \<times> string \<times> (nat \<rightharpoonup> string) \<times> nat option"

text \<open>A literal is compared character by character, in lower case under \<^verbatim>\<open>re.IGNORECASE\<close>.\<close>

fun lit_match :: "bool \<Rightarrow> string \<Rightarrow> string \<Rightarrow> bool" where
  "lit_match ic [] r = True"
| "lit_match ic (c # w) [] = False"
| "lit_match ic (c # w) (x # r) =
     ((if ic then lower_char c = lower_char x else c = x) \<and> lit_match ic w r)"

text \<open>\<^verbatim>\<open>\b\<close>: exactly one of the characters around the cursor is a word character; the
  outside of the text counts as a non-word character.\<close>

definition at_boundary :: "string \<Rightarrow> string \<Rightarrow> bool" where
  "at_boundary b r \<longleftrightarrow>
     (case b of [] \<Rightarrow> False | c # _ \<Rightarrow> is_word c) \<noteq> (case r of [] \<Rightarrow> False | c # _ \<Rightarrow> is_word c)"

text \<open>
  \<open>rmatch ic p st\<close> lists the states in which \<open>p\<close> can end when it starts in \<open>st\<close>, in the
  order in which the backtracking matcher tries them: a greedy quantifier tries one more
  round before it tries to stop, an alternation tries its left branch first. The head of
  the list is the match that \<^verbatim>\<open>re\<close> reports. A round of \<^verbatim>\<open>*\<close> that consumes nothing is
  not repeated.
\<close>

fun rmatch :: "bool \<Rightarrow> re \<Rightarrow> mstate \<Rightarrow> mstate list" where
  "rmatch ic Eps st = [st]"
| "rmatch ic (Str w) (b, r, g, li) =
     (if lit_match ic w r then [(rev (take (length w) r) @ b, drop (length w) r, g, li)] else [])"
| "rmatch ic Digit (b, r, g, li) =
     (case r of [] \<Rightarrow> [] | c # cs \<Rightarrow> if is_digit c then [(c # b, cs, g, li)] else [])"
| "rmatch ic Space (b, r, g, li) =
     (case r of [] \<Rightarrow> [] | c # cs \<Rightarrow> if is_space c then [(c # b, cs, g, li)] else [])"
| "rmatch ic WordB (b, r, g, li) = (if at_boundary b r then [(b, r, g, li)] else [])"
| "rmatch ic (Seq p q) st = concat (map (rmatch ic q) (rmatch ic p st))"
| "rmatch ic (Alt p q) st = rmatch ic p st @ rmatch ic q st"
| "rmatch ic (Opt p) st = rmatch ic p st @ [st]"
| "rmatch ic (Star p) st =
     concat (map (\<lambda>st'. if length (fst (snd st')) < length (fst (snd st))
                         then rmatch ic (Star p) st' else [])
                 (rmatch ic p st)) @ [st]"
| "rmatch ic (Group n p) (b, r, g, li) =
     map (\<lambda>(b', r', g', li'). (b', r', g'(n \<mapsto> rev (take (length b' - length b) b')), Some n))
         (rmatch ic p (b, r, g, li))"

text \<open>
  \<^verbatim>\<open>re.search\<close>: the pattern is tried at every position from the left, the end of the text
  included; the first position with a match gives the match object, here the state in which
  the match ended.
\<close>

fun search_from :: "bool \<Rightarrow> re \<Rightarrow> string \<Rightarrow> string \<Rightarrow> mstate option" where
  "search_from ic p b [] =
     (case rmatch ic p (b, [], Map.empty, None) of [] \<Rightarrow> None | st # _ \<Rightarrow> Some st)"
| "search_from ic p b (c # cs) =
     (case rmatch ic p (b, c # cs, Map.empty, None) of
        [] \<Rightarrow> search_from ic p (c # b) cs
      | st # _ \<Rightarrow> Some st)"

definition re_search :: "bool \<Rightarrow> re \<Rightarrow> string \<Rightarrow> mstate option" where
  "re_search ic p text = search_from ic p [] text"

text \<open>\<^verbatim>\<open>match.group(n)\<close> (\<open>None\<close> for a group that took no part) and \<^verbatim>\<open>match.lastindex\<close>.\<close>

definition match_group :: "mstate \<Rightarrow> nat \<Rightarrow> string option" where
  "match_group m n = fst (snd (snd m)) n"

definition lastindex :: "mstate \<Rightarrow> nat option" where
  "lastindex m = snd (snd (snd m))"

text \<open>
  \<^verbatim>\<open>re.sub(p, '', text)\<close> without flags: the matches are found from the left, each one starts
  where the one before ended, and they are left out. Where the pattern does not match, or
  matches the empty string, one character is copied.
\<close>

fun sub_from :: "re \<Rightarrow> string \<Rightarrow> string \<Rightarrow> string" where
  "sub_from p b [] = []"
| "sub_from p b (c # cs) =
     (case rmatch False p (b, c # cs, Map.empty, None) of
        [] \<Rightarrow> c # sub_from p (c # b) cs
      | st # _ \<Rightarrow>
          if length (fst (snd st)) < length (c # cs) then sub_from p (fst st) (fst (snd st))
          else c # sub_from p (c # b) cs)"

definition re_sub_empty :: "re \<Rightarrow> string \<Rightarrow> string" where
  "re_sub_empty p text = sub_from p [] text"

section \<open>The pattern catalogue\<close>

datatype py_error = TypeError | AttributeError | ValueError

record GPUInfo =
  manufacturer :: string
  series :: string
  model :: string
  vram :: "int option"
  card_manufacturer :: "string option"
  confidence_score :: rat

text \<open>A model template such as \<^verbatim>\<open>'7{group1}{group2}'\<close> is a list of parts.\<close>

datatype tpart = Lit string | Group1 | Group2

type_synonym rule = "re \<times> string \<times> string \<times> tpart list"

definition nvidia_patterns :: "rule list" where
  "nvidia_patterns =
    [(seqs [Str ''rtx'', Star Space, Str ''50'', Group 1 (Times 2 Digit)],
        ''NVIDIA'', ''RTX 50'', [Lit ''50'', Group1]),
     (seqs [Str ''rtx'', Star Space, Str ''40'', Group 1 (Times 2 Digit),
            Opt (seqs [Star Space, Str ''ti''])],
        ''NVIDIA'', ''RTX 40'', [Lit ''40'', Group1]),
     (seqs [Str ''rtx'', Star Space, Str ''4'', Group 1 (Times 3 Digit),
            Opt (seqs [Star Space, Str ''ti''])],
        ''NVIDIA'', ''RTX 40'', [Lit ''4'', Group1]),
     (seqs [Str ''rtx'', Star Space, Str ''30'', Group 1 (Times 2 Digit),
            Opt (seqs [Star Space, Str ''ti''])],
        ''NVIDIA'', ''RTX 30'', [Lit ''30'', Group1]),
     (seqs [Str ''rtx'', Star Space, Str ''3'', Group 1 (Times 3 Digit),
            Opt (seqs [Star Space, Str ''ti''])],
        ''NVIDIA'', ''RTX 30'', [Lit ''3'', Group1]),
     (seqs [Str ''geforce'', Star Space, Str ''rtx'', Star Space, Group 1 (Times 4 Digit),
            Opt (seqs [Star Space, Str ''ti''])],
        ''NVIDIA'', ''RTX'', [Group1])]"

definition amd_patterns :: "rule list" where
  "amd_patterns =
    [(seqs [Str ''rx'', Star Space, Str ''7'', Group 1 (Times 3 Digit), Star Space,
            Opt (Group 2 (Alt (Str ''xt'') (Str ''gre'')))],
        ''AMD'', ''RX 7000'', [Lit ''7'', Group1, Group2]),
     (seqs [Str ''radeon'', Star Space, Str ''rx'', Star Space, Str ''7'', Group 1 (Times 3 Digit),
            Star Space, Opt (Group 2 (Alt (Str ''xt'') (Str ''gre'')))],
        ''AMD'', ''RX 7000'', [Lit ''7'', Group1, Group2]),
     (seqs [Str ''rx'', Star Space, Str ''6'', Group 1 (Times 3 Digit), Star Space,
            Opt (Group 2 (Alt (Str ''xt'') (Str ''gre'')))],
        ''AMD'', ''RX 6000'', [Lit ''6'', Group1, Group2]),
     (seqs [Str ''radeon'', Star Space, Str ''rx'', Star Space, Str ''6'', Group 1 (Times 3 Digit),
            Star Space, Opt (Group 2 (Alt (Str ''xt'') (Str ''gre'')))],
        ''AMD'', ''RX 6000'', [Lit ''6'', Group1, Group2])]"

definition intel_patterns :: "rule list" where
  "intel_patterns =
    [(seqs [Str ''arc'', Star Space,
            Group 1 (Alt (Seq (Str ''a'') (Times 3 Digit)) (Seq (Str ''b'') (Times 3 Digit)))],
        ''Intel'', ''Arc'', [Group1]),
     (seqs [Str ''intel'', Star Space, Str ''arc'', Star Space,
            Group 1 (Alt (Seq (Str ''a'') (Times 3 Digit)) (Seq (Str ''b'') (Times 3 Digit)))],
        ''Intel'', ''Arc'', [Group1])]"

definition vram_patterns :: "re list" where
  "vram_patterns =
    [seqs [Group 1 (Plus Digit), Star Space, Str ''gb'', Star Space, Str ''vram''],
     seqs [Group 1 (Plus Digit), Star Space, Str ''gb'',
           Opt (seqs [Star Space, Str ''gddr'', Star Digit])],
     seqs [Group 1 (Plus Digit), Str ''gb''],
     seqs [Str ''vram:'', Star Space, Group 1 (Plus Digit), Star Space, Str ''gb'']]"

definition manufacturer_patterns :: "(string \<times> re list) list" where
  "manufacturer_patterns =
    [(''MSI'', [seqs [WordB, Str ''msi'', WordB], seqs [Str ''msi'', Plus Space, Str ''gaming''],
               seqs [Str ''msi'', Plus Space, Str ''ventus'']]),
     (''ASUS'', [seqs [WordB, Str ''asus'', WordB], seqs [Str ''asus'', Plus Space, Str ''rog''],
                seqs [Str ''asus'', Plus Space, Str ''tuf''],
                seqs [Str ''asus'', Plus Space, Str ''dual'']]),
     (''Gigabyte'', [seqs [WordB, Str ''gigabyte'', WordB],
                    seqs [Str ''gigabyte'', Plus Space, Str ''gaming''],
                    seqs [Str ''gigabyte'', Plus Space, Str ''aorus'']]),
     (''EVGA'', [seqs [WordB, Str ''evga'', WordB], seqs [Str ''evga'', Plus Space, Str ''ftw''],
                seqs [Str ''evga'', Plus Space, Str ''sc'']]),
     (''Sapphire'', [seqs [WordB, Str ''sapphire'', WordB],
                    seqs [Str ''sapphire'', Plus Space, Str ''nitro''],
                    seqs [Str ''sapphire'', Plus Space, Str ''pulse'']]),
     (''PowerColor'', [seqs [WordB, Str ''powercolor'', WordB],
                      seqs [Str ''powercolor'', Plus Space, Str ''red'']]),
     (''XFX'', [seqs [WordB, Str ''xfx'', WordB], seqs [Str ''xfx'', Plus Space, Str ''speedster'']]),
     (''Zotac'', [seqs [WordB, Str ''zotac'', WordB], seqs [Str ''zotac'', Plus Space, Str ''gaming'']]),
     (''Palit'', [seqs [WordB, Str ''palit'', WordB],
                 seqs [Str ''palit'', Plus Space, Str ''gamerock'']]),
     (''Gainward'', [seqs [WordB, Str ''gainward'', WordB],
                    seqs [Str ''gainward'', Plus Space, Str ''phoenix'']]),
     (''PNY'', [seqs [WordB, Str ''pny'', WordB]]),
     (''Inno3D'', [seqs [WordB, Str ''inno3d'', WordB]]),
     (''Manli'', [seqs [WordB, Str ''manli'', WordB]])]"

text \<open>The number of the price patterns: digits, groups of a comma and three digits, and
  an optional point with two digits.\<close>

definition price_number :: re where
  "price_number =
     seqs [Plus Digit, Star (Seq (Str '','') (Times 3 Digit)), Opt (Seq (Str ''.'') (Times 2 Digit))]"

definition price_patterns :: "re list" where
  "price_patterns =
    [seqs [Str [pound], Group 1 price_number],
     seqs [Group 1 price_number, Star Space, Str [pound]],
     seqs [Str [pound], Star Space, Group 1 price_number],
     Group 1 price_number]"

section \<open>The extractors\<close>

text \<open>
  The methods of \<^verbatim>\<open>GPUDataStandardizer\<close>, with the names of the source (without the leading
  underscore of the private ones). A method that can raise returns \<open>py_error + _\<close>. A loop
  over a table is a recursion over the list of its entries, in the order of the source.
\<close>

text \<open>How \<^verbatim>\<open>str.format\<close> writes an argument that is a string or \<^verbatim>\<open>None\<close>.\<close>

definition format_arg :: "string option \<Rightarrow> string" where
  "format_arg v = (case v of None \<Rightarrow> ''None'' | Some s \<Rightarrow> s)"

fun format :: "tpart list \<Rightarrow> string option \<Rightarrow> string option \<Rightarrow> string" where
  "format [] group1 group2 = []"
| "format (Lit s # ps) group1 group2 = s @ format ps group1 group2"
| "format (Group1 # ps) group1 group2 = format_arg group1 @ format ps group1 group2"
| "format (Group2 # ps) group1 group2 = format_arg group2 @ format ps group1 group2"

text \<open>\<^verbatim>\<open>int(s)\<close> for a captured group: \<^verbatim>\<open>None\<close> is a TypeError; a non-empty string of digits
  has its decimal value. The patterns capture digits only, and every other string is taken
  as a ValueError here.\<close>

definition py_int :: "string option \<Rightarrow> py_error + int" where
  "py_int v =
     (case v of
        None \<Rightarrow> Inl TypeError
      | Some s \<Rightarrow> if s \<noteq> [] \<and> list_all is_digit s then Inr (int (digits_val s)) else Inl ValueError)"

fun extract_vram_loop :: "re list \<Rightarrow> string \<Rightarrow> py_error + int option" where
  "extract_vram_loop [] text = Inr None"
| "extract_vram_loop (pattern # rest) text =
     (case re_search True pattern text of
        None \<Rightarrow> extract_vram_loop rest text
      | Some m \<Rightarrow>
          (case py_int (match_group m 1) of
             Inl e \<Rightarrow> if e = ValueError then extract_vram_loop rest text else Inl e
           | Inr v \<Rightarrow>
               if 1 \<le> v \<and> v \<le> 24 then Inr (Some v)
               else extract_vram_loop rest text))"

definition extract_vram :: "string \<Rightarrow> py_error + int option" where
  "extract_vram text = extract_vram_loop vram_patterns text"

fun extract_card_manufacturer_loop :: "(string \<times> re list) list \<Rightarrow> string \<Rightarrow> string option" where
  "extract_card_manufacturer_loop [] text = None"
| "extract_card_manufacturer_loop ((man, patterns) # rest) text =
     (if list_ex (\<lambda>pattern. re_search True pattern text \<noteq> None) patterns then Some man
      else extract_card_manufacturer_loop rest text)"

definition extract_card_manufacturer :: "string \<Rightarrow> string option" where
  "extract_card_manufacturer text = extract_card_manufacturer_loop manufacturer_patterns text"

text \<open>
  The three vendor matchers differ in how they fill the template. \<^verbatim>\<open>match.lastindex >= 1\<close>
  is a TypeError when no group took part (\<^verbatim>\<open>lastindex\<close> is \<^verbatim>\<open>None\<close>), and
  \<^verbatim>\<open>match.group(1).upper()\<close> is an AttributeError when the group is \<^verbatim>\<open>None\<close>.
\<close>

definition nvidia_model :: "tpart list \<Rightarrow> mstate \<Rightarrow> py_error + string" where
  "nvidia_model tpl m =
     (case lastindex m of
        None \<Rightarrow> Inl TypeError
      | Some li \<Rightarrow>
          Inr (py_strip (format tpl (if 1 \<le> li then match_group m 1 else Some [])
                                    (if 2 \<le> li then match_group m 2 else Some []))))"

definition amd_model :: "tpart list \<Rightarrow> mstate \<Rightarrow> py_error + string" where
  "amd_model tpl m =
     (case lastindex m of
        None \<Rightarrow> Inl TypeError
      | Some li \<Rightarrow>
          Inr (py_strip (format tpl (if 1 \<le> li then match_group m 1 else Some [])
                 (if 2 \<le> li \<and> match_group m 2 \<noteq> None \<and> match_group m 2 \<noteq> Some []
                  then Some ('' '' @ py_upper (the (match_group m 2))) else Some []))))"

definition intel_model :: "tpart list \<Rightarrow> mstate \<Rightarrow> py_error + string" where
  "intel_model tpl m =
     (case lastindex m of
        None \<Rightarrow> Inl TypeError
      | Some li \<Rightarrow>
          if 1 \<le> li then
            (case match_group m 1 of
               None \<Rightarrow> Inl AttributeError
             | Some s \<Rightarrow> Inr (py_strip (format tpl (Some (py_upper s)) None)))
          else Inr (py_strip (format tpl (Some []) None)))"

text \<open>The identity that a matched rule builds; VRAM and card manufacturer come from the
  same text.\<close>

definition make_gpu_info :: "string \<Rightarrow> string \<Rightarrow> string \<Rightarrow> string \<Rightarrow> py_error + GPUInfo option" where
  "make_gpu_info man ser mdl text =
     (case extract_vram text of
        Inl e \<Rightarrow> Inl e
      | Inr v \<Rightarrow>
          Inr (Some \<lparr>manufacturer = man, series = ser, model = mdl, vram = v,
                     card_manufacturer = extract_card_manufacturer text,
                     confidence_score = 9 / 10\<rparr>))"

fun match_nvidia_loop :: "rule list \<Rightarrow> string \<Rightarrow> py_error + GPUInfo option" where
  "match_nvidia_loop [] text = Inr None"
| "match_nvidia_loop ((pattern, man, ser, tpl) # rest) text =
     (case re_search True pattern text of
        None \<Rightarrow> match_nvidia_loop rest text
      | Some m \<Rightarrow>
          (case nvidia_model tpl m of
             Inl e \<Rightarrow> Inl e
           | Inr mdl \<Rightarrow>
               make_gpu_info man ser (if sublist ''ti'' text then mdl @ '' Ti'' else mdl) text))"

fun match_amd_loop :: "rule list \<Rightarrow> string \<Rightarrow> py_error + GPUInfo option" where
  "match_amd_loop [] text = Inr None"
| "match_amd_loop ((pattern, man, ser, tpl) # rest) text =
     (case re_search True pattern text of
        None \<Rightarrow> match_amd_loop rest text
      | Some m \<Rightarrow>
          (case amd_model tpl m of
             Inl e \<Rightarrow> Inl e
           | Inr mdl \<Rightarrow> make_gpu_info man ser mdl text))"

fun match_intel_loop :: "rule list \<Rightarrow> string \<Rightarrow> py_error + GPUInfo option" where
  "match_intel_loop [] text = Inr None"
| "match_intel_loop ((pattern, man, ser, tpl) # rest) text =
     (case re_search True pattern text of
        None \<Rightarrow> match_intel_loop rest text
      | Some m \<Rightarrow>
          (case intel_model tpl m of
             Inl e \<Rightarrow> Inl e
           | Inr mdl \<Rightarrow> make_gpu_info man ser mdl text))"

definition match_nvidia_patterns :: "string \<Rightarrow> py_error + GPUInfo option" where
  "match_nvidia_patterns text = match_nvidia_loop nvidia_patterns text"

definition match_amd_patterns :: "string \<Rightarrow> py_error + GPUInfo option" where
  "match_amd_patterns text = match_amd_loop amd_patterns text"

definition match_intel_patterns :: "string \<Rightarrow> py_error + GPUInfo option" where
  "match_intel_patterns text = match_intel_loop intel_patterns text"

definition extract_gpu_info :: "string \<Rightarrow> string \<Rightarrow> py_error + GPUInfo option" where
  "extract_gpu_info title description =
     (let text = py_lower (title @ '' '' @ description) in
      case match_nvidia_patterns text of
        Inl e \<Rightarrow> Inl e
      | Inr (Some gpu_info) \<Rightarrow> Inr (Some gpu_info)
      | Inr None \<Rightarrow>
          (case match_amd_patterns text of
             Inl e \<Rightarrow> Inl e
           | Inr (Some gpu_info) \<Rightarrow> Inr (Some gpu_info)
           | Inr None \<Rightarrow> match_intel_patterns text))"

subsection \<open>Price\<close>

text \<open>
  A Python float is modelled by the rational number that the decimal text denotes.
  \<^verbatim>\<open>float(s)\<close> rounds that number to the nearest double; rounding is monotone and
  10 and 10000 are doubles, so the band check gives the same answer on both. The numbers
  of the claims (450.0, 1450.0) are doubles themselves.

  \<^verbatim>\<open>float(s)\<close> is modelled for digits with an optional point and more digits, which is
  all the price patterns capture once the commas are removed; every other string is taken
  as a ValueError here.
\<close>

definition py_float :: "string \<Rightarrow> py_error + rat" where
  "py_float s =
     (let ip = takeWhile is_digit s; rest = dropWhile is_digit s in
      if rest = [] then (if ip = [] then Inl ValueError else Inr (of_nat (digits_val ip)))
      else if hd rest = CHR ''.'' \<and> list_all is_digit (tl rest) \<and> (ip \<noteq> [] \<or> tl rest \<noteq> [])
      then Inr (of_nat (digits_val ip) + of_nat (digits_val (tl rest)) / 10 ^ length (tl rest))
      else Inl ValueError)"

definition price_modifiers :: re where
  "price_modifiers =
     Group 1 (Alt (Str ''ono'') (Alt (Str ''or best offer'') (Alt (Str ''obo'')
             (Alt (Str ''neg'') (Str ''negotiable'')))))"

fun extract_price_loop :: "re list \<Rightarrow> string \<Rightarrow> py_error + rat option" where
  "extract_price_loop [] cleaned = Inr None"
| "extract_price_loop (pattern # rest) cleaned =
     (case re_search False pattern cleaned of
        None \<Rightarrow> extract_price_loop rest cleaned
      | Some m \<Rightarrow>
          (case match_group m 1 of
             None \<Rightarrow> Inl AttributeError
           | Some s \<Rightarrow>
               (case py_float (remove_char CHR '','' s) of
                  Inl e \<Rightarrow> if e = ValueError then extract_price_loop rest cleaned else Inl e
                | Inr price \<Rightarrow>
                    if 10 \<le> price \<and> price \<le> 10000 then Inr (Some price)
                    else extract_price_loop rest cleaned)))"

definition extract_price :: "string \<Rightarrow> py_error + rat option" where
  "extract_price price_text =
     (if price_text = [] then Inr None
      else extract_price_loop price_patterns (re_sub_empty price_modifiers (py_lower price_text)))"

subsection \<open>Target filter\<close>

text \<open>\<^verbatim>\<open>config.gpu_targets\<close> comes from the configuration module, which the function
  only reads: three lists of strings.\<close>

record gpu_targets =
  nvidia_series :: "string list"
  amd_series :: "string list"
  intel_models :: "string list"

definition validate_gpu_targets :: "GPUInfo option \<Rightarrow> gpu_targets \<Rightarrow> bool" where
  "validate_gpu_targets gpu_info config =
     (case gpu_info of
        None \<Rightarrow> False
      | Some gi \<Rightarrow>
          (let man = py_lower (manufacturer gi); mdl = py_lower (model gi) in
           if man = ''nvidia'' then list_ex (\<lambda>series. sublist series mdl) (nvidia_series config)
           else if man = ''amd'' then list_ex (\<lambda>series. sublist series mdl) (amd_series config)
           else if man = ''intel'' then
             list_ex (\<lambda>target_model. sublist (py_lower target_model) mdl) (intel_models config)
           else False))"

subsection \<open>Condition\<close>

text \<open>The values a raw listing can hold. \<open>truthy\<close> is Python's truth test.\<close>

datatype pyval =
    PNone
  | PBool bool
  | PInt int
  | PFloat rat
  | PStr string
  | PList "pyval list"
  | PDict "(string \<times> pyval) list"

fun truthy :: "pyval \<Rightarrow> bool" where
  "truthy PNone = False"
| "truthy (PBool b) = b"
| "truthy (PInt i) = (i \<noteq> 0)"
| "truthy (PFloat x) = (x \<noteq> 0)"
| "truthy (PStr s) = (s \<noteq> [])"
| "truthy (PList xs) = (xs \<noteq> [])"
| "truthy (PDict kvs) = (kvs \<noteq> [])"

definition condition_map :: "(string \<times> string list) list" where
  "condition_map =
    [(''new'', [''new'', ''brand new'', ''sealed'', ''unopened'', ''mint'']),
     (''like new'', [''like new'', ''excellent'', ''very good'', ''pristine'', ''perfect'']),
     (''good'', [''good'', ''working'', ''functional'', ''used - good'']),
     (''fair'', [''fair'', ''average'', ''used - fair'', ''some wear'']),
     (''poor'', [''poor'', ''damaged'', ''faulty'', ''for parts'', ''spares''])]"

fun variants_loop :: "string \<Rightarrow> string list \<Rightarrow> string \<Rightarrow> string option" where
  "variants_loop standard_condition [] condition_lower = None"
| "variants_loop standard_condition (variant # variants) condition_lower =
     (if sublist variant condition_lower then Some (py_title standard_condition)
      else variants_loop standard_condition variants condition_lower)"

fun condition_loop :: "(string \<times> string list) list \<Rightarrow> string \<Rightarrow> string option" where
  "condition_loop [] condition_lower = None"
| "condition_loop ((standard_condition, variants) # rest) condition_lower =
     (case variants_loop standard_condition variants condition_lower of
        Some r \<Rightarrow> Some r
      | None \<Rightarrow> condition_loop rest condition_lower)"

definition standardize_condition :: "pyval \<Rightarrow> py_error + string" where
  "standardize_condition condition =
     (if \<not> truthy condition then Inr ''Unknown''
      else case condition of
        PStr s \<Rightarrow>
          (case condition_loop condition_map (py_strip (py_lower s)) of
             Some r \<Rightarrow> Inr r
           | None \<Rightarrow> Inr (py_title s))
      | _ \<Rightarrow> Inl AttributeError)"

subsection \<open>The listing standardizer\<close>

type_synonym listing = "string \<rightharpoonup> pyval"

text \<open>\<^verbatim>\<open>dict.get(key, default)\<close>, and \<^verbatim>\<open>value.strip()\<close>, which only a string has.\<close>

definition get :: "listing \<Rightarrow> string \<Rightarrow> pyval \<Rightarrow> pyval" where
  "get d key dflt = (case d key of None \<Rightarrow> dflt | Some v \<Rightarrow> v)"

definition strip_value :: "pyval \<Rightarrow> py_error + string" where
  "strip_value v = (case v of PStr s \<Rightarrow> Inr (py_strip s) | _ \<Rightarrow> Inl AttributeError)"

definition opt_val :: "('a \<Rightarrow> pyval) \<Rightarrow> 'a option \<Rightarrow> pyval" where
  "opt_val f v = (case v of None \<Rightarrow> PNone | Some x \<Rightarrow> f x)"

text \<open>The dictionary that an accepted listing becomes.\<close>

definition build_listing ::
  "listing \<Rightarrow> string \<Rightarrow> string \<Rightarrow> string \<Rightarrow> rat option \<Rightarrow> GPUInfo \<Rightarrow> string \<Rightarrow> listing" where
  "build_listing raw_listing title description price_text price gpu_info condition =
     map_of
        [(''title'', PStr title),
         (''description'', PStr description),
         (''price_text'', PStr price_text),
         (''standardized_price'', opt_val PFloat price),
         (''gpu_manufacturer'', PStr (manufacturer gpu_info)),
         (''gpu_series'', PStr (series gpu_info)),
         (''gpu_model'', PStr (model gpu_info)),
         (''vram_gb'', opt_val PInt (vram gpu_info)),
         (''card_manufacturer'', opt_val PStr (card_manufacturer gpu_info)),
         (''confidence_score'', PFloat (confidence_score gpu_info)),
         (''url'', get raw_listing ''url'' PNone),
         (''marketplace'', get raw_listing ''marketplace'' (get raw_listing ''source'' PNone)),
         (''scraped_at'', get raw_listing ''scraped_at'' PNone),
         (''listing_type'', get raw_listing ''listing_type'' PNone),
         (''condition'', PStr condition),
         (''location'', get raw_listing ''location'' PNone),
         (''seller_info'', get raw_listing ''seller_info'' PNone),
         (''is_sold'', get raw_listing ''is_sold'' (PBool False)),
         (''is_featured'', get raw_listing ''is_featured'' (PBool False)),
         (''shipping'', get raw_listing ''shipping'' PNone),
         (''posted_date'', get raw_listing ''posted_date'' PNone),
         (''image_url'', get raw_listing ''image_url'' PNone)]"

text \<open>The body of the \<^verbatim>\<open>try\<close> block: \<open>Inl\<close> is an exception raised inside it. The
  condition is normalized while the dictionary is built, after the price.\<close>

definition standardize_body :: "listing \<Rightarrow> py_error + listing option" where
  "standardize_body raw_listing =
     (case strip_value (get raw_listing ''title'' (PStr [])) of Inl e \<Rightarrow> Inl e | Inr title \<Rightarrow>
      case strip_value (get raw_listing ''description'' (PStr [])) of Inl e \<Rightarrow> Inl e | Inr description \<Rightarrow>
      case strip_value (get raw_listing ''price'' (PStr [])) of Inl e \<Rightarrow> Inl e | Inr price_text \<Rightarrow>
      if title = [] then Inr None
      else
      case extract_gpu_info title description of Inl e \<Rightarrow> Inl e | Inr None \<Rightarrow> Inr None
      | Inr (Some gpu_info) \<Rightarrow>
      if confidence_score gpu_info < 3 / 10 then Inr None
      else
      case extract_price price_text of Inl e \<Rightarrow> Inl e | Inr price \<Rightarrow>
      case standardize_condition (get raw_listing ''condition'' (PStr [])) of Inl e \<Rightarrow> Inl e
      | Inr condition \<Rightarrow>
      Inr (Some (build_listing raw_listing title description price_text price gpu_info condition)))"

text \<open>\<^verbatim>\<open>except Exception\<close>: every exception of the body becomes the result \<^verbatim>\<open>None\<close>.\<close>

definition standardize_listing :: "listing \<Rightarrow> listing option" where
  "standardize_listing raw_listing =
     (case standardize_body raw_listing of Inl e \<Rightarrow> None | Inr r \<Rightarrow> r)"

section \<open>Reference formulations and example inputs\<close>

text \<open>
  The condition normalizer as the specification words it: the first category, in the order
  of the table, one of whose variants occurs in the lowered and trimmed input; its name in
  title case; without such a category the input itself in title case; \<open>Unknown\<close> for the
  empty input.
\<close>

definition first_category :: "string \<Rightarrow> string option" where
  "first_category condition_lower =
     map_option fst
       (List.find (\<lambda>(category, variants). list_ex (\<lambda>variant. sublist variant condition_lower) variants)
          condition_map)"

definition condition_spec :: "string \<Rightarrow> string" where
  "condition_spec condition =
     (if condition = [] then ''Unknown''
      else case first_category (py_strip (py_lower condition)) of
             Some category \<Rightarrow> py_title category
           | None \<Rightarrow> py_title condition)"

text \<open>\<^verbatim>\<open>result[key]\<close> of a standardized listing, \<open>None\<close> for a rejected one.\<close>

definition field :: "string \<Rightarrow> listing option \<Rightarrow> pyval option" where
  "field key result = (case result of None \<Rightarrow> None | Some S \<Rightarrow> S key)"

text \<open>The listing of the end-to-end scenario.\<close>

definition example_listing :: listing where
  "example_listing =
     [''title'' \<mapsto> PStr ''MSI RTX 4090 Gaming X Trio 24GB'',
      ''price'' \<mapsto> PStr (pound # ''1,450.00''),
      ''condition'' \<mapsto> PStr ''Used - Excellent'']"

text \<open>What a pattern with one group captures in a text: \<open>None\<close> without a match.\<close>

definition capture :: "bool \<Rightarrow> re \<Rightarrow> string \<Rightarrow> string option option" where
  "capture ic p text = map_option (\<lambda>m. match_group m 1) (re_search ic p text)"



text \<open>
  Two properties that can be read off a pattern: \<open>sets n p\<close>, every match of \<open>p\<close> goes
  through group \<open>n\<close>; \<open>group_free p\<close>, \<open>p\<close> has no group.
\<close>

fun sets :: "nat \<Rightarrow> re \<Rightarrow> bool" where
  "sets n (Seq p q) = (sets n p \<or> sets n q)"
| "sets n (Alt p q) = (sets n p \<and> sets n q)"
| "sets n (Group k p) = (k = n \<or> sets n p)"
| "sets n p = False"










text \<open>
  The target filter as the specification words it: some target configured for the
  identity's manufacturer occurs in the model, both compared in lower case. The example is
  the identity of the title \<open>AMD Radeon RX 7800 XT 16GB Gaming GPU\<close> (one of the test
  titles of the source) and a configuration that names this model.
\<close>

definition targets_of :: "string \<Rightarrow> gpu_targets \<Rightarrow> string list" where
  "targets_of man config =
     (if py_lower man = ''nvidia'' then nvidia_series config
      else if py_lower man = ''amd'' then amd_series config
      else if py_lower man = ''intel'' then intel_models config
      else [])"

definition target_spec :: "GPUInfo \<Rightarrow> gpu_targets \<Rightarrow> bool" where
  "target_spec gpu_info config =
     list_ex (\<lambda>target. sublist (py_lower target) (py_lower (model gpu_info)))
       (targets_of (manufacturer gpu_info) config)"

definition amd_example :: GPUInfo where
  "amd_example =
     \<lparr>manufacturer = ''AMD'', series = ''RX 7000'', model = ''7800 XT'', vram = Some 16,
      card_manufacturer = None, confidence_score = 9 / 10\<rparr>"

definition amd_targets :: gpu_targets where
  "amd_targets = \<lparr>nvidia_series = [], amd_series = [''7800 XT''], intel_models = []\<rparr>"

text \<open>What the listing of the end-to-end scenario is standardized to.\<close>

definition example_standardized :: listing where
  "example_standardized =
     map_of
        [(''title'', PStr ''MSI RTX 4090 Gaming X Trio 24GB''),
         (''description'', PStr []),
         (''price_text'', PStr (pound # ''1,450.00'')),
         (''standardized_price'', PFloat 1450),
         (''gpu_manufacturer'', PStr ''NVIDIA''),
         (''gpu_series'', PStr ''RTX 40''),
         (''gpu_model'', PStr ''4090''),
         (''vram_gb'', PInt 24),
         (''card_manufacturer'', PStr ''MSI''),
         (''confidence_score'', PFloat (9 / 10)),
         (''url'', PNone),
         (''marketplace'', PNone),
         (''scraped_at'', PNone),
         (''listing_type'', PNone),
         (''condition'', PStr ''Like New''),
         (''location'', PNone),
         (''seller_info'', PNone),
         (''is_sold'', PBool False),
         (''is_featured'', PBool False),
         (''shipping'', PNone),
         (''posted_date'', PNone),
         (''image_url'', PNone)]"

text \<open>Whether a value is a string, the only type with \<^verbatim>\<open>strip\<close> and \<^verbatim>\<open>lower\<close> among the
  values of a listing.\<close>

definition is_str :: "pyval \<Rightarrow> bool" where
  "is_str v = (case v of PStr s \<Rightarrow> True | _ \<Rightarrow> False)"

section \<open>Properties of the string operations\<close>

lemma sublist_dropWhile:
  assumes "sublist w s" "w \<noteq> []" "\<not> P (hd w)"
  shows "sublist w (dropWhile P s)"
proof -
  from assms(1) obtain ps ss where s: "s = ps @ w @ ss" by (auto simp: sublist_def)
  show ?thesis
  proof (cases "\<forall>x\<in>set ps. P x")
    case True
    from assms(2,3) have "dropWhile P (w @ ss) = w @ ss" by (cases w) auto
    with True s have "dropWhile P s = w @ ss" by simp
    then show ?thesis by simp
  next
    case False
    then have "dropWhile P s = dropWhile P ps @ w @ ss" unfolding s by auto
    then show ?thesis by simp
  qed
qed

lemma sublist_py_strip:
  assumes "sublist w s" "w \<noteq> []" "\<not> is_space (hd w)" "\<not> is_space (last w)"
  shows "sublist w (py_strip s)"
proof -
  have "sublist w (dropWhile is_space s)" using assms by (intro sublist_dropWhile) auto
  then have "sublist (rev w) (rev (dropWhile is_space s))" by simp
  moreover have "hd (rev w) = last w" using assms(2) by (simp add: hd_rev)
  ultimately have "sublist (rev w) (dropWhile is_space (rev (dropWhile is_space s)))"
    using assms by (intro sublist_dropWhile) auto
  then have "sublist (rev (rev w)) (rev (dropWhile is_space (rev (dropWhile is_space s))))"
    by (subst sublist_rev)
  then show ?thesis by (simp add: py_strip_def)
qed

section \<open>Condition normalizer\<close>

lemma variants_loop_eq:
  "variants_loop std vs cl =
     (if list_ex (\<lambda>v. sublist v cl) vs then Some (py_title std) else None)"
  by (induction vs) auto

lemma condition_loop_eq:
  "condition_loop m cl =
     map_option (\<lambda>(std, vs). py_title std)
       (List.find (\<lambda>(std, vs). list_ex (\<lambda>v. sublist v cl) vs) m)"
  by (induction m) (auto simp: variants_loop_eq)

lemma standardize_condition_spec:
  "standardize_condition (PStr c) = Inr (condition_spec c)"
  by (auto simp: standardize_condition_def condition_spec_def first_category_def
        condition_loop_eq split: option.splits)

lemma title_new: "py_title ''new'' = ''New''"
  by code_simp



text \<open>
  C10. Every non-empty condition string that contains \<open>new\<close> in any letter case is
  normalized to \<open>New\<close>: the variant \<open>new\<close> of the first category is tested before
  anything else. The input \<open>Like New\<close> is such a string.
\<close>

theorem standardize_condition_new:
  assumes "condition \<noteq> []" and "sublist ''new'' (py_lower condition)"
  shows "standardize_condition (PStr condition) = Inr ''New''"
proof -
  have sp: "\<not> is_space CHR ''n''" "\<not> is_space CHR ''w''"
    by (simp_all add: is_space_def)
  have "sublist ''new'' (py_strip (py_lower condition))"
    using assms(2) sp by (intro sublist_py_strip) auto
  then have "condition_loop condition_map (py_strip (py_lower condition)) = Some ''New''"
    by (simp add: condition_map_def title_new)
  with assms(1) show ?thesis
    by (simp add: standardize_condition_def)
qed

theorem standardize_condition_new_witness:
  "''Like New'' \<noteq> [] \<and> sublist ''new'' (py_lower ''Like New'')
   \<and> standardize_condition (PStr ''Like New'') = Inr ''New''"
proof -
  have h1: "''Like New'' \<noteq> []" by simp
  have h2: "sublist ''new'' (py_lower ''Like New'')" by code_simp
  from standardize_condition_new [OF h1 h2] h1 h2 show ?thesis by blast
qed

section \<open>Properties of the matcher\<close>

declare rmatch.simps(9) [simp del]










section \<open>VRAM extractor\<close>












section \<open>The end-to-end scenario\<close>

lemma extract_price_loop_capture:
  "extract_price_loop (p # rest) cleaned =
     (case capture False p cleaned of
        None \<Rightarrow> extract_price_loop rest cleaned
      | Some None \<Rightarrow> Inl AttributeError
      | Some (Some s) \<Rightarrow>
          (case py_float (remove_char CHR '','' s) of
             Inl e \<Rightarrow> if e = ValueError then extract_price_loop rest cleaned else Inl e
           | Inr price \<Rightarrow>
               if 10 \<le> price \<and> price \<le> 10000 then Inr (Some price)
               else extract_price_loop rest cleaned))"
  by (simp add: capture_def split: option.splits)

lemmas py_float_eval = py_float_def remove_char_def is_digit_def digits_val_def digit_val_def

lemma example_gpu:
  "extract_gpu_info ''MSI RTX 4090 Gaming X Trio 24GB'' [] =
     Inr (Some \<lparr>manufacturer = ''NVIDIA'', series = ''RTX 40'', model = ''4090'', vram = Some 24,
                card_manufacturer = Some ''MSI'', confidence_score = 9 / 10\<rparr>)"
  by code_simp

lemma example_price: "extract_price (pound # ''1,450.00'') = Inr (Some 1450)"
proof -
  have 1: "re_sub_empty price_modifiers (py_lower (pound # ''1,450.00'')) = pound # ''1,450.00''"
    by code_simp
  have 2: "capture False (seqs [Str [pound], Group 1 price_number]) (pound # ''1,450.00'')
             = Some (Some ''1,450.00'')"
    by code_simp
  show ?thesis
    apply (simp only: extract_price_def price_patterns_def 1 2 extract_price_loop_capture
             option.case list.simps if_False)
    apply (simp add: py_float_eval del: extract_price_loop.simps)
    done
qed

lemma example_condition: "standardize_condition (PStr ''Used - Excellent'') = Inr ''Like New''"
  by code_simp

lemma example_strip:
  "py_strip ''MSI RTX 4090 Gaming X Trio 24GB'' = ''MSI RTX 4090 Gaming X Trio 24GB''"
  "py_strip (pound # ''1,450.00'') = pound # ''1,450.00''"
  "py_strip [] = []"
  by code_simp+

lemma example_result: "standardize_listing example_listing = Some example_standardized"
  by (simp add: standardize_listing_def standardize_body_def build_listing_def example_listing_def
        example_standardized_def get_def strip_value_def example_strip example_gpu example_price
        example_condition opt_val_def)

text \<open>
  C1 (amended). The listing with title \<open>MSI RTX 4090 Gaming X Trio 24GB\<close>, price
  \<open>\<pounds>1,450.00\<close>, condition \<open>Used - Excellent\<close> and no description is accepted, with
  gpu_manufacturer \<open>NVIDIA\<close>, gpu_series \<open>RTX 40\<close>, gpu_model \<open>4090\<close>, vram_gb 24,
  card_manufacturer \<open>MSI\<close>, standardized_price 1450.0 and condition \<open>Like New\<close>: the
  variant \<open>excellent\<close> belongs to the category \<open>like new\<close>, which is scanned before
  \<open>good\<close>.
\<close>

theorem standardize_listing_example:
  "field ''gpu_manufacturer'' (standardize_listing example_listing) = Some (PStr ''NVIDIA'')
   \<and> field ''gpu_series'' (standardize_listing example_listing) = Some (PStr ''RTX 40'')
   \<and> field ''gpu_model'' (standardize_listing example_listing) = Some (PStr ''4090'')
   \<and> field ''vram_gb'' (standardize_listing example_listing) = Some (PInt 24)
   \<and> field ''card_manufacturer'' (standardize_listing example_listing) = Some (PStr ''MSI'')
   \<and> field ''standardized_price'' (standardize_listing example_listing) = Some (PFloat 1450)
   \<and> field ''condition'' (standardize_listing example_listing) = Some (PStr ''Like New'')"
  by (simp add: example_result example_standardized_def field_def)

text \<open>C1 as stated fails: the condition of the result is not \<open>Good\<close>.\<close>

theorem standardize_listing_example_counterexample:
  "field ''condition'' (standardize_listing example_listing) \<noteq> Some (PStr ''Good'')"
  by (simp add: example_result example_standardized_def field_def)

section \<open>Price extractor\<close>


















section \<open>GPU identity extractor\<close>


lemma rmatch_Opt_nonempty: "rmatch ic (Opt p) st \<noteq> []"
  by simp




lemma py_strip_nonempty: "\<not> is_space c \<Longrightarrow> py_strip (c # s) \<noteq> []"
  by (simp add: py_strip_def dropWhile_eq_Nil_conv)








lemma nvidia_patterns_sets: "list_all (\<lambda>r. sets 1 (fst r)) nvidia_patterns"
  by (simp add: nvidia_patterns_def seqs_def)















lemma literal_template_nonempty:
  "\<not> is_space c \<Longrightarrow> py_strip (format (Lit (c # l) # tpl) g1 g2) \<noteq> []"
  by (simp add: py_strip_nonempty)























section \<open>Target filter\<close>

text \<open>The filter agrees with the specification when the NVIDIA and AMD targets are
  written in lower case; only the Intel targets are lowered by the code.\<close>

lemma validate_gpu_targets_lower:
  assumes "list_all (\<lambda>t. py_lower t = t) (nvidia_series config @ amd_series config)"
  shows "validate_gpu_targets (Some gpu_info) config = target_spec gpu_info config"
proof -
  have "list_ex (\<lambda>t. sublist t s) ts = list_ex (\<lambda>t. sublist (py_lower t) s) ts"
    if "list_all (\<lambda>t. py_lower t = t) ts" for ts s
    using that by (induction ts) auto
  with assms show ?thesis
    by (simp add: validate_gpu_targets_def target_spec_def targets_of_def Let_def)
qed

text \<open>
  C4. The claim asks for a case-insensitive comparison. The code lowers the model and, for
  Intel, the target, but not the NVIDIA and AMD targets: the model \<open>7800 XT\<close> with the
  configured AMD target \<open>7800 XT\<close> is rejected, although the target occurs in the model.
\<close>

theorem validate_gpu_targets_case_sensitive:
  "extract_gpu_info ''AMD Radeon RX 7800 XT 16GB Gaming GPU'' [] = Inr (Some amd_example)
   \<and> target_spec amd_example amd_targets
   \<and> \<not> validate_gpu_targets (Some amd_example) amd_targets"
proof -
  have "extract_gpu_info ''AMD Radeon RX 7800 XT 16GB Gaming GPU'' [] = Inr (Some amd_example)"
    by code_simp
  moreover have "target_spec amd_example amd_targets"
    by code_simp
  moreover have "\<not> validate_gpu_targets (Some amd_example) amd_targets"
    by code_simp
  ultimately show ?thesis by blast
qed

section \<open>Listing standardizer\<close>

lemma last_dropWhile: "dropWhile P xs \<noteq> [] \<Longrightarrow> last (dropWhile P xs) = last xs"
  by (induction xs) (auto split: if_splits)

lemma dropWhile_id: "xs = [] \<or> \<not> P (hd xs) \<Longrightarrow> dropWhile P xs = xs"
  by (cases xs) auto

lemma py_strip_idem: "py_strip (py_strip s) = py_strip s"
proof -
  define u where "u = dropWhile is_space s"
  define v where "v = dropWhile is_space (rev u)"
  have s: "py_strip s = rev v" by (simp add: py_strip_def u_def v_def)
  have v_hd: "v = [] \<or> \<not> is_space (hd v)"
    unfolding v_def using hd_dropWhile[of is_space "rev u"] by blast
  have "rev v = [] \<or> \<not> is_space (hd (rev v))"
  proof (cases "v = []")
    case True
    then show ?thesis by simp
  next
    case False
    then have "last v = last (rev u)" unfolding v_def by (rule last_dropWhile)
    moreover from False have "u \<noteq> []" by (auto simp: v_def)
    ultimately have "last v = hd u" by (simp add: last_rev)
    moreover from \<open>u \<noteq> []\<close> have "\<not> is_space (hd u)"
      unfolding u_def by (rule hd_dropWhile)
    ultimately show ?thesis using False by (simp add: hd_rev)
  qed
  then have 1: "dropWhile is_space (rev v) = rev v" by (rule dropWhile_id)
  from v_hd have 2: "dropWhile is_space v = v" by (rule dropWhile_id)
  show ?thesis unfolding s by (simp add: py_strip_def 1 2)
qed

lemma strip_value_Inr: "strip_value v = Inr s \<longleftrightarrow> (\<exists>t. v = PStr t \<and> s = py_strip t)"
  by (cases v) (auto simp: strip_value_def)

lemma strip_value_Inl: "strip_value v = Inl e \<longleftrightarrow> (\<not> is_str v \<and> e = AttributeError)"
  by (cases v) (auto simp: strip_value_def is_str_def)

lemma standardize_listing_accepted:
  assumes "standardize_listing raw = Some S"
  shows "\<exists>t d p g price cond.
           get raw ''title'' (PStr []) = PStr t \<and> get raw ''description'' (PStr []) = PStr d
           \<and> get raw ''price'' (PStr []) = PStr p \<and> py_strip t \<noteq> []
           \<and> extract_gpu_info (py_strip t) (py_strip d) = Inr (Some g)
           \<and> \<not> confidence_score g < 3 / 10
           \<and> extract_price (py_strip p) = Inr price
           \<and> standardize_condition (get raw ''condition'' (PStr [])) = Inr cond
           \<and> S = build_listing raw (py_strip t) (py_strip d) (py_strip p) price g cond"
  using assms unfolding standardize_listing_def standardize_body_def
  by (auto split: sum.splits option.splits if_splits simp: strip_value_Inr)

lemma standardize_body_accepts:
  assumes "get raw ''title'' (PStr []) = PStr t" "get raw ''description'' (PStr []) = PStr d"
    "get raw ''price'' (PStr []) = PStr p" "py_strip t \<noteq> []"
    "extract_gpu_info (py_strip t) (py_strip d) = Inr (Some g)"
    "\<not> confidence_score g < 3 / 10"
    "extract_price (py_strip p) = Inr price"
    "standardize_condition (get raw ''condition'' (PStr [])) = Inr cond"
  shows "standardize_body raw =
           Inr (Some (build_listing raw (py_strip t) (py_strip d) (py_strip p) price g cond))"
  using assms unfolding standardize_body_def by (simp add: strip_value_def)

lemma build_listing_fields:
  "build_listing raw t d p price g cond ''title'' = Some (PStr t)"
  "build_listing raw t d p price g cond ''description'' = Some (PStr d)"
  "build_listing raw t d p price g cond ''price'' = None"
  "build_listing raw t d p price g cond ''condition'' = Some (PStr cond)"
  "build_listing raw t d p price g cond ''gpu_manufacturer'' = Some (PStr (manufacturer g))"
  "build_listing raw t d p price g cond ''gpu_series'' = Some (PStr (series g))"
  "build_listing raw t d p price g cond ''gpu_model'' = Some (PStr (model g))"
  "build_listing raw t d p price g cond ''vram_gb'' = Some (opt_val PInt (vram g))"
  "build_listing raw t d p price g cond ''card_manufacturer'' = Some (opt_val PStr (card_manufacturer g))"
  "build_listing raw t d p price g cond ''confidence_score'' = Some (PFloat (confidence_score g))"
  by (simp_all add: build_listing_def)



text \<open>
  C9. When a raw listing is accepted with output \<open>S\<close>, standardizing \<open>S\<close> itself raises
  nothing (the body of the \<^verbatim>\<open>try\<close> block returns) and accepts it, and the GPU
  manufacturer, series, model, VRAM, card manufacturer and confidence score of the second
  output are those of \<open>S\<close>, as are the title and the description they are derived from.
\<close>

theorem standardize_listing_idempotent:
  assumes "standardize_listing raw_listing = Some S"
  shows "\<exists>S'. standardize_body S = Inr (Some S') \<and> standardize_listing S = Some S'
           \<and> S' ''gpu_manufacturer'' = S ''gpu_manufacturer''
           \<and> S' ''gpu_series'' = S ''gpu_series''
           \<and> S' ''gpu_model'' = S ''gpu_model''
           \<and> S' ''vram_gb'' = S ''vram_gb''
           \<and> S' ''card_manufacturer'' = S ''card_manufacturer''
           \<and> S' ''confidence_score'' = S ''confidence_score''
           \<and> S' ''title'' = S ''title''
           \<and> S' ''description'' = S ''description''"
proof -
  from standardize_listing_accepted[OF assms] obtain t d p g price cond where
    t: "py_strip t \<noteq> []"
    and g: "extract_gpu_info (py_strip t) (py_strip d) = Inr (Some g)"
       "\<not> confidence_score g < 3 / 10"
    and S: "S = build_listing raw_listing (py_strip t) (py_strip d) (py_strip p) price g cond"
    by blast
  have 1: "get S ''title'' (PStr []) = PStr (py_strip t)"
    and 2: "get S ''description'' (PStr []) = PStr (py_strip d)"
    and 3: "get S ''price'' (PStr []) = PStr []"
    and 4: "get S ''condition'' (PStr []) = PStr cond"
    unfolding S by (simp_all add: get_def build_listing_fields)
  have 5: "py_strip (py_strip t) \<noteq> []" using t by (simp add: py_strip_idem)
  have 6: "extract_gpu_info (py_strip (py_strip t)) (py_strip (py_strip d)) = Inr (Some g)"
    using g(1) by (simp add: py_strip_idem)
  have 7: "extract_price (py_strip []) = Inr None"
    by (simp add: py_strip_def extract_price_def)
  have 8: "standardize_condition (get S ''condition'' (PStr [])) = Inr (condition_spec cond)"
    unfolding 4 by (rule standardize_condition_spec)
  let ?S' = "build_listing S (py_strip (py_strip t)) (py_strip (py_strip d)) (py_strip []) None g
               (condition_spec cond)"
  from standardize_body_accepts[OF 1 2 3 5 6 g(2) 7 8]
  have b: "standardize_body S = Inr (Some ?S')" .
  then have "standardize_listing S = Some ?S'" by (simp add: standardize_listing_def)
  moreover have "?S' ''gpu_manufacturer'' = S ''gpu_manufacturer''"
    "?S' ''gpu_series'' = S ''gpu_series''" "?S' ''gpu_model'' = S ''gpu_model''"
    "?S' ''vram_gb'' = S ''vram_gb''" "?S' ''card_manufacturer'' = S ''card_manufacturer''"
    "?S' ''confidence_score'' = S ''confidence_score''"
    "?S' ''title'' = S ''title''" "?S' ''description'' = S ''description''"
    unfolding S by (simp_all add: build_listing_fields py_strip_idem)
  ultimately show ?thesis using b by blast
qed

theorem standardize_listing_idempotent_witness:
  "standardize_listing example_listing = Some example_standardized
   \<and> (\<exists>S'. standardize_body example_standardized = Inr (Some S')
          \<and> standardize_listing example_standardized = Some S'
          \<and> S' ''gpu_manufacturer'' = Some (PStr ''NVIDIA'')
          \<and> S' ''gpu_series'' = Some (PStr ''RTX 40'')
          \<and> S' ''gpu_model'' = Some (PStr ''4090'')
          \<and> S' ''vram_gb'' = Some (PInt 24)
          \<and> S' ''card_manufacturer'' = Some (PStr ''MSI'')
          \<and> S' ''confidence_score'' = Some (PFloat (9 / 10)))"
proof -
  from standardize_listing_idempotent[OF example_result] obtain S' where
    "standardize_body example_standardized = Inr (Some S')"
    "standardize_listing example_standardized = Some S'"
    "S' ''gpu_manufacturer'' = example_standardized ''gpu_manufacturer''"
    "S' ''gpu_series'' = example_standardized ''gpu_series''"
    "S' ''gpu_model'' = example_standardized ''gpu_model''"
    "S' ''vram_gb'' = example_standardized ''vram_gb''"
    "S' ''card_manufacturer'' = example_standardized ''card_manufacturer''"
    "S' ''confidence_score'' = example_standardized ''confidence_score''"
    by blast
  moreover have "example_standardized ''gpu_manufacturer'' = Some (PStr ''NVIDIA'')"
    "example_standardized ''gpu_series'' = Some (PStr ''RTX 40'')"
    "example_standardized ''gpu_model'' = Some (PStr ''4090'')"
    "example_standardized ''vram_gb'' = Some (PInt 24)"
    "example_standardized ''card_manufacturer'' = Some (PStr ''MSI'')"
    "example_standardized ''confidence_score'' = Some (PFloat (9 / 10))"
    by (simp_all add: example_standardized_def)
  ultimately show ?thesis using example_result by auto
qed







end
